theory Spec2Isabelle
  imports Main "HOL-Library.Word" "HOL-Library.Multiset" "HOL-Library.Signed_Division"
begin

section \<open>The audio playback engine of sim-jjj\<close>

text \<open>
  A shallow embedding of class \<open>Audio\<close> (declared in \<open>audio.h\<close>, implemented in
  \<open>audio.cpp\<close>) and of the wrapper classes \<open>CDevice\<close> and \<open>CResampler\<close>.

  The class talks to the miniaudio library, to \<open>spdlog\<close> and to the C++ standard library.
  None of these is part of the repository, so what they answer is a parameter of the model
  (record \<open>platform\<close>), and every call that has an effect outside the object is appended to
  a history (field \<open>trace\<close>). An exception that leaves a function is the value
  \<open>Inl StdException\<close>; undefined behaviour of C++ (signed overflow, a read past the end of
  the caller's buffer, a null dereference) is the value \<open>Inl UndefinedBehaviour\<close>.
  Heap allocation (\<open>new\<close>, \<open>make_unique\<close>, \<open>vector::resize\<close>) is taken to succeed.
\<close>

subsection \<open>Data of miniaudio seen by the class\<close>

datatype ma_result = MA_SUCCESS | MA_ERROR | MA_INVALID_ARGS | MA_OTHER nat

datatype ma_format =
  ma_format_unknown | ma_format_u8 | ma_format_s16 | ma_format_s24 | ma_format_s32 | ma_format_f32

text \<open>A device identity is an opaque block of bytes; \<open>0\<close> is the block \<open>memset\<close> to zero and
  \<open>ma_device_id_equal\<close> is equality.\<close>

type_synonym ma_device_id = nat

definition MA_TRUE :: "32 word" where
  "MA_TRUE = 1"

record ma_device_info =
  info_id :: ma_device_id
  info_name :: string
  info_isDefault :: "32 word"

record ma_resampler =
  format :: ma_format
  channels :: "32 word"
  sampleRateIn :: "32 word"
  sampleRateOut :: "32 word"

record ma_audio_buffer_config =
  cfg_format :: ma_format
  cfg_channels :: "32 word"
  cfg_sizeInFrames :: "64 word"
  cfg_sampleRate :: "32 word"

text \<open>An initialised audio buffer keeps the configuration it was built from; its data
  pointer is the \<open>pcmData\<close> of the payload that owns it. Of a sound the class only reads
  whether it has reached its end (\<open>ma_sound_at_end\<close>).\<close>

type_synonym ma_audio_buffer = ma_audio_buffer_config

record ma_sound =
  at_end :: bool

subsection \<open>Data of the repository\<close>

definition AUDIO_DEFAULT_SAMPLE_RATE :: "32 word" where
  "AUDIO_DEFAULT_SAMPLE_RATE = 48000"

record DeviceInfo =
  id' :: ma_device_id
  name :: string
  isDefault :: bool

text \<open>\<open>CDevice\<close> owns one native device, opened on the identity given to the constructor.\<close>

datatype CDevice = CDevice (device: ma_device_id)

text \<open>\<open>CResampler\<close> owns a \<open>unique_ptr<ma_resampler>\<close>; \<open>None\<close> is the null pointer.\<close>

record CResampler =
  resampler :: "ma_resampler option"

record SoundPayload =
  sound :: "ma_sound option"
  audioBuffer :: "ma_audio_buffer option"
  pcmData :: "8 word list"

datatype spdlog_level = debug | warn | err | critical

datatype event =
    spdlog spdlog_level string
  | free_buffer
  | call_ma_device_init ma_device_id ma_result
  | call_ma_device_start ma_device_id
  | call_ma_device_uninit ma_device_id
  | call_ma_resampler_init ma_format "32 word" "32 word" "32 word" ma_result
  | call_ma_resampler_uninit
  | call_ma_resampler_set_rate "32 word" "32 word" ma_result
  | call_ma_resampler_process_pcm_frames ma_result
  | call_ma_audio_buffer_init ma_audio_buffer_config ma_result
  | call_ma_audio_buffer_uninit
  | call_ma_sound_init_from_data_source ma_result
  | call_ma_sound_uninit
  | call_ma_sound_start

text \<open>The members of \<open>Audio\<close>, in the order of the class, and the history of effects.
  \<open>sounds\<close> is a vector of pointers, \<open>None\<close> being \<open>nullptr\<close>.\<close>

record Audio =
  m_device :: "CDevice option"
  m_resampler :: "CResampler option"
  m_selectedDeviceID :: ma_device_id
  m_currentDeviceID :: ma_device_id
  m_hasCurrentDevice :: bool
  m_lastDevicesList :: "DeviceInfo list"
  sounds :: "SoundPayload option list"
  trace :: "event list"

datatype failure = StdException | UndefinedBehaviour

subsection \<open>What the platform answers\<close>

text \<open>
  One field for each library function whose answer the class depends on.
  \<open>std_sort\<close> is \<open>std::sort\<close> with the comparator of \<open>getDevicesList\<close>;
  \<open>ma_resampler_process_pcm_frames\<close> answers the result, the number of frames produced and
  the bytes written to the output; \<open>empty_vector_data_is_null\<close> says whether
  \<open>vector::data()\<close> of an empty vector is the null pointer (the standard allows both).
\<close>

record platform =
  std_sort :: "DeviceInfo list \<Rightarrow> DeviceInfo list"
  ma_context_get_devices :: "ma_result \<times> ma_device_info list"
  ma_device_init :: "ma_device_id \<Rightarrow> ma_result"
  ma_resampler_init :: "ma_format \<Rightarrow> 32 word \<Rightarrow> 32 word \<Rightarrow> 32 word \<Rightarrow> ma_result"
  ma_resampler_set_rate :: "ma_resampler \<Rightarrow> 32 word \<Rightarrow> 32 word \<Rightarrow> ma_result"
  ma_resampler_get_expected_output_frame_count :: "ma_resampler \<Rightarrow> 64 word \<Rightarrow> ma_result \<times> 64 word"
  ma_resampler_process_pcm_frames ::
    "ma_resampler \<Rightarrow> 8 word list \<Rightarrow> 64 word \<Rightarrow> 64 word \<Rightarrow> ma_result \<times> 64 word \<times> 8 word list"
  ma_audio_buffer_init :: "ma_audio_buffer_config \<Rightarrow> 8 word list \<Rightarrow> ma_result"
  ma_sound_init_from_data_source :: "ma_audio_buffer \<Rightarrow> ma_result"
  empty_vector_data_is_null :: bool

definition emit :: "event \<Rightarrow> Audio \<Rightarrow> Audio" where
  "emit e a = a\<lparr>trace := trace a @ [e]\<rparr>"

definition emits :: "event list \<Rightarrow> Audio \<Rightarrow> Audio" where
  "emits es a = a\<lparr>trace := trace a @ es\<rparr>"

subsection \<open>\<open>determineFormat\<close>\<close>

definition determineFormat :: "32 word \<Rightarrow> ma_format" where
  "determineFormat bitsPerSample =
     (if bitsPerSample = 8 then ma_format_u8
      else if bitsPerSample = 16 then ma_format_s16
      else if bitsPerSample = 24 then ma_format_s24
      else if bitsPerSample = 32 then ma_format_s32
      else ma_format_unknown)"

subsection \<open>\<open>CDevice\<close>\<close>

text \<open>The constructor throws when \<open>ma_device_init\<close> fails; the destructor closes the device.\<close>

definition CDevice_ctor :: "platform \<Rightarrow> ma_device_id \<Rightarrow> Audio \<Rightarrow> (failure + CDevice) \<times> Audio" where
  "CDevice_ctor env deviceID a =
     (let result = ma_device_init env deviceID;
          a1 = emit (call_ma_device_init deviceID result) a
      in if result \<noteq> MA_SUCCESS
         then (Inl StdException, emit (spdlog err ''Failed to initialize audio device: {}'') a1)
         else (Inr (CDevice deviceID), a1))"

definition CDevice_dtor :: "CDevice \<Rightarrow> Audio \<Rightarrow> Audio" where
  "CDevice_dtor d a = emit (call_ma_device_uninit (device d)) a"

subsection \<open>\<open>CResampler\<close>\<close>

definition CResampler_ctor ::
  "platform \<Rightarrow> ma_format \<Rightarrow> 32 word \<Rightarrow> 32 word \<Rightarrow> 32 word \<Rightarrow> Audio \<Rightarrow> (failure + CResampler) \<times> Audio" where
  "CResampler_ctor env fmt chans rateIn rateOut a =
     (let result = ma_resampler_init env fmt chans rateIn rateOut;
          a1 = emit (call_ma_resampler_init fmt chans rateIn rateOut result) a
      in if result \<noteq> MA_SUCCESS
         then (Inl StdException, emit (spdlog err ''Failed to initialize resampler: {}'') a1)
         else (Inr \<lparr>resampler = Some \<lparr>format = fmt, channels = chans,
                                      sampleRateIn = rateIn, sampleRateOut = rateOut\<rparr>\<rparr>, a1))"

definition CResampler_dtor :: "CResampler \<Rightarrow> Audio \<Rightarrow> Audio" where
  "CResampler_dtor r a = emit call_ma_resampler_uninit a"

text \<open>\<open>setRate\<close>: \<open>MA_ERROR\<close> without a native resampler; otherwise the native call, which on
  success leaves the new rate pair in the resampler.\<close>

definition setRate ::
  "platform \<Rightarrow> 32 word \<Rightarrow> 32 word \<Rightarrow> CResampler \<Rightarrow> Audio \<Rightarrow> ma_result \<times> CResampler \<times> Audio" where
  "setRate env rateIn rateOut r a =
     (case resampler r of
        None \<Rightarrow> (MA_ERROR, r, a)
      | Some mr \<Rightarrow>
          (let result = ma_resampler_set_rate env mr rateIn rateOut;
               a1 = emit (call_ma_resampler_set_rate rateIn rateOut result) a
           in if result = MA_SUCCESS
              then (result, r\<lparr>resampler := Some (mr\<lparr>sampleRateIn := rateIn, sampleRateOut := rateOut\<rparr>)\<rparr>, a1)
              else (result, r, a1)))"

text \<open>\<open>processAudioData\<close>: the two pointers are options (\<open>None\<close> is null); the output
  pointer carries the bytes of the vector it points into. The native call writes inside
  that vector and cannot change its size.\<close>

definition processAudioData ::
  "platform \<Rightarrow> CResampler \<Rightarrow> 8 word list option \<Rightarrow> 64 word \<Rightarrow> 8 word list option \<Rightarrow> 64 word \<Rightarrow> Audio
     \<Rightarrow> (ma_result \<times> 64 word \<times> 8 word list) \<times> Audio" where
  "processAudioData env r pFramesIn frameCountIn pFramesOut frameCountOut a =
     (case (pFramesIn, pFramesOut) of
        (Some inp, Some outp) \<Rightarrow>
          (case resampler r of
             None \<Rightarrow> ((MA_ERROR, frameCountOut, outp), a)
           | Some mr \<Rightarrow>
               (case ma_resampler_process_pcm_frames env mr inp frameCountIn frameCountOut of
                  (result, produced, written) \<Rightarrow>
                    ((result, produced, take (length outp) (written @ drop (length written) outp)),
                     emit (call_ma_resampler_process_pcm_frames result) a)))
      | _ \<Rightarrow> ((MA_INVALID_ARGS, frameCountOut, (case pFramesOut of None \<Rightarrow> [] | Some outp \<Rightarrow> outp)), a))"

subsection \<open>Device enumeration and selection\<close>

text \<open>\<open>getDevicesList\<close>: throws when the backend cannot enumerate; otherwise copies every
  \<open>ma_device_info\<close> into a \<open>DeviceInfo\<close>, sorts the copy with \<open>std::sort\<close> and the comparator
  \<open>first.isDefault > second.isDefault\<close>, stores it in \<open>m_lastDevicesList\<close> and returns it.\<close>

definition isDefault_greater :: "DeviceInfo \<Rightarrow> DeviceInfo \<Rightarrow> bool" where
  "isDefault_greater first second = (isDefault first \<and> \<not> isDefault second)"

definition DeviceInfo_of :: "ma_device_info \<Rightarrow> DeviceInfo" where
  "DeviceInfo_of i = \<lparr>id' = info_id i, name = info_name i, isDefault = (info_isDefault i = MA_TRUE)\<rparr>"

definition getDevicesList :: "platform \<Rightarrow> Audio \<Rightarrow> (failure + DeviceInfo list) \<times> Audio" where
  "getDevicesList env a =
     (case ma_context_get_devices env of
        (result, pDeviceInfos) \<Rightarrow>
          if result \<noteq> MA_SUCCESS
          then (Inl StdException, emit (spdlog critical ''Failed to get list of devices'') a)
          else
            (let deviceInfos = map DeviceInfo_of pDeviceInfos;
                 a1 = a\<lparr>m_lastDevicesList := std_sort env deviceInfos\<rparr>
             in (Inr (m_lastDevicesList a1), a1)))"

definition selectDevice :: "64 word \<Rightarrow> Audio \<Rightarrow> Audio" where
  "selectDevice deviceIndex a =
     (if m_lastDevicesList a = []
      then emit (spdlog warn ''Cannot select audio device: device list is empty'') a
      else
        (let (deviceIndex1, a1) =
               (if unat deviceIndex \<ge> length (m_lastDevicesList a)
                then (0, emit (spdlog warn ''Device index {} is out of range. Falling back to 0.'') a)
                else (deviceIndex, a))
         in a1\<lparr>m_selectedDeviceID := id' (m_lastDevicesList a1 ! unat deviceIndex1)\<rparr>))"

subsection \<open>\<open>updateDevice\<close> and \<open>updateResampler\<close>\<close>

text \<open>Assigning to \<open>m_device\<close> or \<open>m_resampler\<close> destroys the object held before, after the
  new one has been constructed; when the constructor throws, the member is not touched.\<close>

definition updateDevice :: "platform \<Rightarrow> Audio \<Rightarrow> (failure + unit) \<times> Audio" where
  "updateDevice env a =
     (if m_hasCurrentDevice a \<and> m_currentDeviceID a = m_selectedDeviceID a
      then (Inr (), a)
      else
        (case CDevice_ctor env (m_selectedDeviceID a)
                (emit (spdlog debug ''Initializing new audio device'') a) of
           (Inl e, a1) \<Rightarrow> (Inl e, a1)
         | (Inr d, a1) \<Rightarrow>
             (let a2 = (case m_device a1 of None \<Rightarrow> a1 | Some old \<Rightarrow> CDevice_dtor old a1);
                  a3 = a2\<lparr>m_device := Some d\<rparr>;
                  a4 = emit (call_ma_device_start (device d)) a3
              in (Inr (), a4\<lparr>m_currentDeviceID := m_selectedDeviceID a4, m_hasCurrentDevice := True\<rparr>))))"

definition replaceResampler ::
  "platform \<Rightarrow> ma_format \<Rightarrow> 32 word \<Rightarrow> 32 word \<Rightarrow> 32 word \<Rightarrow> Audio \<Rightarrow> (failure + unit) \<times> Audio" where
  "replaceResampler env fmt chans rateIn rateOut a =
     (case CResampler_ctor env fmt chans rateIn rateOut a of
        (Inl e, a1) \<Rightarrow> (Inl e, a1)
      | (Inr r, a1) \<Rightarrow>
          (let a2 = (case m_resampler a1 of None \<Rightarrow> a1 | Some old \<Rightarrow> CResampler_dtor old a1)
           in (Inr (), a2\<lparr>m_resampler := Some r\<rparr>)))"

definition updateResampler ::
  "platform \<Rightarrow> ma_format \<Rightarrow> 32 word \<Rightarrow> 32 word \<Rightarrow> 32 word \<Rightarrow> Audio \<Rightarrow> (failure + unit) \<times> Audio" where
  "updateResampler env fmt chans rateIn rateOut a =
     (case m_resampler a of
        None \<Rightarrow> replaceResampler env fmt chans rateIn rateOut a
      | Some r \<Rightarrow>
          (case resampler r of
             None \<Rightarrow> (Inl UndefinedBehaviour, a)
           | Some mr \<Rightarrow>
               if format mr \<noteq> fmt \<or> channels mr \<noteq> chans
               then replaceResampler env fmt chans rateIn rateOut a
               else if rateIn = rateOut then (Inr (), a)
               else
                 (case setRate env rateIn rateOut r a of
                    (result, r1, a1) \<Rightarrow>
                      (let a2 = a1\<lparr>m_resampler := Some r1\<rparr>
                       in if result \<noteq> MA_SUCCESS
                          then (Inl StdException, emit (spdlog err ''Failed to set sample rate: {}'') a2)
                          else (Inr (), a2)))))"

subsection \<open>The sound registry\<close>

definition SoundPayload_dtor :: "SoundPayload \<Rightarrow> Audio \<Rightarrow> Audio" where
  "SoundPayload_dtor p a =
     (let a1 = (if sound p \<noteq> None then emit call_ma_sound_uninit a else a)
      in if audioBuffer p \<noteq> None then emit call_ma_audio_buffer_uninit a1 else a1)"

text \<open>The predicate handed to \<open>std::remove_if\<close> deletes the payloads it selects and counts
  them; the elements it rejects keep their order.\<close>

fun remove_if_sounds ::
  "bool \<Rightarrow> SoundPayload option list \<Rightarrow> Audio \<Rightarrow> SoundPayload option list \<times> nat \<times> Audio" where
  "remove_if_sounds onlyUnused [] a = ([], 0, a)"
| "remove_if_sounds onlyUnused (s # ss) a =
     (case s of
        None \<Rightarrow> (case remove_if_sounds onlyUnused ss a of (kept, counter, a1) \<Rightarrow> (s # kept, counter, a1))
      | Some p \<Rightarrow>
          if \<not> onlyUnused \<or> (case sound p of None \<Rightarrow> False | Some s1 \<Rightarrow> at_end s1)
          then (case remove_if_sounds onlyUnused ss (SoundPayload_dtor p a) of
                  (kept, counter, a1) \<Rightarrow> (kept, Suc counter, a1))
          else (case remove_if_sounds onlyUnused ss a of (kept, counter, a1) \<Rightarrow> (s # kept, counter, a1)))"

definition freeSounds :: "bool \<Rightarrow> Audio \<Rightarrow> Audio" where
  "freeSounds onlyUnused a =
     (case remove_if_sounds onlyUnused (sounds a) a of
        (kept, counter, a1) \<Rightarrow>
          (let a2 = a1\<lparr>sounds := kept\<rparr>
           in if counter > 0 then emit (spdlog debug ''Sounds freed: {}'') a2 else a2))"

subsection \<open>\<open>playAudioData\<close>\<close>

text \<open>\<open>(bufferSize * 8) / (channels * bitsPerSample)\<close>: the product is computed in \<open>int\<close>,
  where overflow is undefined, and converted to 64 bits for the unsigned division.\<close>

definition frameCountIn_of :: "64 word \<Rightarrow> 32 word \<Rightarrow> 32 word \<Rightarrow> 64 word option" where
  "frameCountIn_of bufferSize chans bitsPerSample =
     (let prod = sint chans * sint bitsPerSample
      in if prod < - (2 ^ 31) \<or> 2 ^ 31 \<le> prod then None
         else if (word_of_int prod :: 64 word) = 0 then None
         else Some ((bufferSize * 8) div word_of_int prod))"

text \<open>\<open>frameCountOut * channels * (bitsPerSample / 8)\<close>, in 64 bits without sign.\<close>

definition pcmSize :: "64 word \<Rightarrow> 32 word \<Rightarrow> 32 word \<Rightarrow> nat" where
  "pcmSize frameCountOut chans bitsPerSample =
     unat (frameCountOut * word_of_int (sint chans) * word_of_int (sint bitsPerSample sdiv 8))"

definition vector_resize :: "nat \<Rightarrow> 8 word list \<Rightarrow> 8 word list" where
  "vector_resize n xs = take n xs @ replicate (n - length xs) 0"

definition vector_data :: "platform \<Rightarrow> 8 word list \<Rightarrow> 8 word list option" where
  "vector_data env xs = (if xs = [] \<and> empty_vector_data_is_null env then None else Some xs)"

type_synonym playResult = "(failure + bool) \<times> Audio"

text \<open>Lines 40 to 105 of \<open>audio.cpp\<close>: validation, device resolution, reclamation, the device,
  the resampler, the frame counts, the conversion and the release of the caller's buffer.
  The result is either the way the function has left (\<open>Inl\<close>), or the format, the frame
  count and the payload with which it goes on (\<open>Inr\<close>).\<close>

definition playAudioData_convert ::
  "platform \<Rightarrow> 32 word \<Rightarrow> 32 word \<Rightarrow> 32 word \<Rightarrow> 64 word \<Rightarrow> 8 word list option \<Rightarrow> Audio
     \<Rightarrow> playResult + (ma_format \<times> 64 word \<times> SoundPayload \<times> Audio)" where
  "playAudioData_convert env chans sampleRate bitsPerSample bufferSize buffer a =
     (case buffer of
        None \<Rightarrow> Inl (Inr False, emit (spdlog err ''Speech buffer was nullptr'') a)
      | Some bytes \<Rightarrow>
        if sint chans \<le> 0 \<or> sint bitsPerSample \<le> 0 \<or> sint sampleRate \<le> 0
        then Inl (Inr False,
                  emits [spdlog err ''Invalid audio metadata: channels={}, sampleRate={}, bitsPerSample={}'',
                         free_buffer] a)
        else
        let fmt = determineFormat bitsPerSample in
        if fmt = ma_format_unknown
        then Inl (Inr False, emits [spdlog err ''Unsupported bits per sample value: {}'', free_buffer] a)
        else if bufferSize = 0
        then Inl (Inr True, emit free_buffer a)
        else
        (case getDevicesList env a of
           (Inl e, a1) \<Rightarrow> Inl (Inl e, a1)
         | (Inr devices, a1) \<Rightarrow>
           if devices = []
           then Inl (Inr False, emits [spdlog err ''No playback devices are available'', free_buffer] a1)
           else
           let a2 = (if find (\<lambda>device. id' device = m_selectedDeviceID a1) devices = None
                     then (emit (spdlog warn ''Selected audio device is unavailable. Falling back to index 0.'') a1)
                            \<lparr>m_selectedDeviceID := id' (devices ! 0)\<rparr>
                     else a1);
               a3 = freeSounds True a2
           in
           (case updateDevice env a3 of
              (Inl e, a4) \<Rightarrow> Inl (Inl e, a4)
            | (Inr _, a4) \<Rightarrow>
              (case updateResampler env fmt chans sampleRate AUDIO_DEFAULT_SAMPLE_RATE a4 of
                 (Inl e, a5) \<Rightarrow> Inl (Inl e, a5)
               | (Inr _, a5) \<Rightarrow>
                 (case frameCountIn_of bufferSize chans bitsPerSample of
                    None \<Rightarrow> Inl (Inl UndefinedBehaviour, a5)
                  | Some frameCountIn \<Rightarrow>
                    (case m_resampler a5 of
                       None \<Rightarrow> Inl (Inl UndefinedBehaviour, a5)
                     | Some r \<Rightarrow>
                       (case resampler r of
                          None \<Rightarrow> Inl (Inl UndefinedBehaviour, a5)
                        | Some mr \<Rightarrow>
                          (case ma_resampler_get_expected_output_frame_count env mr frameCountIn of
                             (result, estimate) \<Rightarrow>
                             if result \<noteq> MA_SUCCESS
                             then Inl (Inr False,
                                       emits [spdlog err ''Failed to get expected frame count for resampling: {}'',
                                              free_buffer] a5)
                             else
                             let pPayload = \<lparr>sound = None, audioBuffer = None,
                                             pcmData = vector_resize (pcmSize estimate chans bitsPerSample) []\<rparr>
                             in
                             if sampleRate \<noteq> AUDIO_DEFAULT_SAMPLE_RATE
                             then
                               (case processAudioData env r (Some bytes) frameCountIn
                                       (vector_data env (pcmData pPayload)) estimate a5 of
                                  ((result1, frameCountOut, written), a6) \<Rightarrow>
                                  if result1 \<noteq> MA_SUCCESS
                                  then Inl (Inr False,
                                            SoundPayload_dtor (pPayload\<lparr>pcmData := written\<rparr>)
                                              (emits [spdlog err ''Failed to resample audio: {}'', free_buffer] a6))
                                  else Inr (fmt, frameCountOut,
                                            pPayload\<lparr>pcmData :=
                                              vector_resize (pcmSize frameCountOut chans bitsPerSample) written\<rparr>,
                                            emit free_buffer a6))
                             else
                               if length bytes < unat bufferSize
                               then Inl (Inl UndefinedBehaviour, a5)
                               else Inr (fmt, frameCountIn,
                                         pPayload\<lparr>pcmData := take (unat bufferSize) bytes\<rparr>,
                                         emit free_buffer a5)))))))))"

text \<open>Lines 107 to 141: the empty result, the audio buffer, the sound, registration and start.
  \<open>make_unique\<close> gives the payload the storage of the audio buffer and of the sound before
  the native initialisation; \<open>reset\<close> takes it away again, so that the destructor of the
  payload finds nothing to uninitialise.\<close>

definition playAudioData_build ::
  "platform \<Rightarrow> ma_format \<Rightarrow> 32 word \<Rightarrow> 64 word \<Rightarrow> SoundPayload \<Rightarrow> Audio \<Rightarrow> playResult" where
  "playAudioData_build env fmt chans frameCountOut pPayload a =
     (if frameCountOut = 0
      then (Inr True, SoundPayload_dtor pPayload a)
      else
      let config = \<lparr>cfg_format = fmt, cfg_channels = chans, cfg_sizeInFrames = frameCountOut,
                     cfg_sampleRate = AUDIO_DEFAULT_SAMPLE_RATE\<rparr>;
          p1 = pPayload\<lparr>audioBuffer := Some config\<rparr>;
          result = ma_audio_buffer_init env config (pcmData p1);
          a1 = emit (call_ma_audio_buffer_init config result) a
      in
      if result \<noteq> MA_SUCCESS
      then
        (let a2 = emit (spdlog critical ''Failed to initialize audio buffer: {}'') a1;
             p2 = p1\<lparr>audioBuffer := None\<rparr>
         in (Inr False, SoundPayload_dtor p2 a2))
      else
      let p2 = p1\<lparr>sound := Some \<lparr>at_end = False\<rparr>\<rparr>;
          result1 = ma_sound_init_from_data_source env config;
          a2 = emit (call_ma_sound_init_from_data_source result1) a1
      in
      if result1 \<noteq> MA_SUCCESS
      then
        (let a3 = emit (spdlog critical ''Failed to initialize sound instance: {}'') a2;
             a4 = emit call_ma_audio_buffer_uninit a3;
             p3 = p2\<lparr>audioBuffer := None, sound := None\<rparr>
         in (Inr False, SoundPayload_dtor p3 a4))
      else
        (let a3 = a2\<lparr>sounds := sounds a2 @ [Some p2]\<rparr>
         in (Inr True, emit call_ma_sound_start a3)))"

definition playAudioData ::
  "platform \<Rightarrow> 32 word \<Rightarrow> 32 word \<Rightarrow> 32 word \<Rightarrow> 64 word \<Rightarrow> 8 word list option \<Rightarrow> Audio \<Rightarrow> playResult" where
  "playAudioData env chans sampleRate bitsPerSample bufferSize buffer a =
     (case playAudioData_convert env chans sampleRate bitsPerSample bufferSize buffer a of
        Inl left \<Rightarrow> left
      | Inr (fmt, frameCountOut, pPayload, a1) \<Rightarrow>
          playAudioData_build env fmt chans frameCountOut pPayload a1)"

subsection \<open>The constructor of \<open>Audio\<close>\<close>

text \<open>The two identities are indeterminate until they are assigned; the model starts them
  at the zero block.\<close>

definition Audio_ctor :: "platform \<Rightarrow> (failure + unit) \<times> Audio" where
  "Audio_ctor env =
     (let a = \<lparr>m_device = None, m_resampler = None, m_selectedDeviceID = 0, m_currentDeviceID = 0,
               m_hasCurrentDevice = False, m_lastDevicesList = [], sounds = [], trace = []\<rparr>
      in case getDevicesList env a of
           (Inl e, a1) \<Rightarrow> (Inl e, a1)
         | (Inr devices, a1) \<Rightarrow>
             if devices = []
             then (Inr (),
                   (emit (spdlog warn ''No audio devices found during Audio initialization'') a1)
                     \<lparr>m_selectedDeviceID := 0, m_currentDeviceID := 0\<rparr>)
             else (Inr (), a1\<lparr>m_selectedDeviceID := id' (devices ! 0), m_currentDeviceID := 0\<rparr>))"

subsection \<open>What \<open>std::sort\<close> promises\<close>


text \<open>The order a stable sort gives: the default devices in their order of enumeration,
  then the others in theirs.\<close>

definition stable_order :: "DeviceInfo list \<Rightarrow> DeviceInfo list" where
  "stable_order xs = filter isDefault xs @ filter (\<lambda>d. \<not> isDefault d) xs"

subsection \<open>The \<open>std::sort\<close> of libstdc++\<close>

text \<open>
  The introspective sort of GCC's libstdc++ (\<open>bits/stl_algo.h\<close>), as one \<open>std::sort\<close> that
  programs really run with: ranges of more than 16 elements are partitioned around the
  median of three, and an insertion sort finishes. The vector is a list, an iterator an
  index into it. The two scans of \<open>__unguarded_partition\<close> and the shift of
  \<open>__unguarded_linear_insert\<close> stop at the ends of the list, which the library leaves to its
  pivot and to the element at the front. The heap sort that the library falls back to when
  the depth limit is used up is left out: the answer is \<open>None\<close> there.
\<close>

definition S_threshold :: nat where
  "S_threshold = 16"

function lg :: "nat \<Rightarrow> nat" where
  "lg n = (if n < 2 then 0 else Suc (lg (n div 2)))"
  by pat_completeness auto
termination
  by (relation "measure (\<lambda>n. n)") auto

definition iter_swap :: "nat \<Rightarrow> nat \<Rightarrow> 'a list \<Rightarrow> 'a list" where
  "iter_swap i j xs = xs[i := xs ! j, j := xs ! i]"

definition move_median_to_first ::
  "('a \<Rightarrow> 'a \<Rightarrow> bool) \<Rightarrow> nat \<Rightarrow> nat \<Rightarrow> nat \<Rightarrow> nat \<Rightarrow> 'a list \<Rightarrow> 'a list" where
  "move_median_to_first cmp result a b c xs =
     (if cmp (xs ! a) (xs ! b)
      then (if cmp (xs ! b) (xs ! c) then iter_swap result b xs
            else if cmp (xs ! a) (xs ! c) then iter_swap result c xs
            else iter_swap result a xs)
      else if cmp (xs ! a) (xs ! c) then iter_swap result a xs
      else if cmp (xs ! b) (xs ! c) then iter_swap result c xs
      else iter_swap result b xs)"

function advance_first :: "('a \<Rightarrow> 'a \<Rightarrow> bool) \<Rightarrow> nat \<Rightarrow> 'a list \<Rightarrow> nat \<Rightarrow> nat" where
  "advance_first cmp pivot xs first =
     (if first < length xs \<and> cmp (xs ! first) (xs ! pivot)
      then advance_first cmp pivot xs (Suc first) else first)"
  by pat_completeness auto
termination
  by (relation "measure (\<lambda>(cmp, pivot, xs, first). length xs - first)") auto

function retreat_last :: "('a \<Rightarrow> 'a \<Rightarrow> bool) \<Rightarrow> nat \<Rightarrow> 'a list \<Rightarrow> nat \<Rightarrow> nat" where
  "retreat_last cmp pivot xs last' =
     (if 0 < last' \<and> cmp (xs ! pivot) (xs ! last')
      then retreat_last cmp pivot xs (last' - 1) else last')"
  by pat_completeness auto
termination
  by (relation "measure (\<lambda>(cmp, pivot, xs, last'). last')") auto

function unguarded_partition ::
  "('a \<Rightarrow> 'a \<Rightarrow> bool) \<Rightarrow> nat \<Rightarrow> nat \<Rightarrow> nat \<Rightarrow> 'a list \<Rightarrow> nat \<times> 'a list" where
  "unguarded_partition cmp pivot first last' xs =
     (let first1 = advance_first cmp pivot xs first;
          last1 = retreat_last cmp pivot xs (last' - 1)
      in if \<not> first1 < last1 then (first1, xs)
         else unguarded_partition cmp pivot (Suc first1) last1 (iter_swap first1 last1 xs))"
  by pat_completeness auto
termination
proof (relation "measure (\<lambda>(cmp, pivot, first, last', xs). last' - first)", goal_cases)
  case 1
  then show ?case by simp
next
  case (2 cmp pivot first last' xs first1 last1)
  have "i \<le> advance_first cmp pivot xs i" for i
    by (induction cmp pivot xs i rule: advance_first.induct)
       (subst advance_first.simps, auto simp del: advance_first.simps)
  then have "first \<le> first1"
    using 2(1) by (simp del: advance_first.simps)
  moreover have "retreat_last cmp pivot xs i \<le> i" for i
    by (induction cmp pivot xs i rule: retreat_last.induct)
       (subst retreat_last.simps, auto simp del: retreat_last.simps)
  then have "last1 \<le> last' - 1"
    using 2(2) by (simp del: retreat_last.simps)
  ultimately show ?case
    using 2(3) by (simp del: advance_first.simps retreat_last.simps)
qed

declare lg.simps [simp del] advance_first.simps [simp del] retreat_last.simps [simp del]
  unguarded_partition.simps [simp del]

definition unguarded_partition_pivot ::
  "('a \<Rightarrow> 'a \<Rightarrow> bool) \<Rightarrow> nat \<Rightarrow> nat \<Rightarrow> 'a list \<Rightarrow> nat \<times> 'a list" where
  "unguarded_partition_pivot cmp first last' xs =
     (let mid = first + (last' - first) div 2
      in unguarded_partition cmp first (first + 1) last'
           (move_median_to_first cmp first (first + 1) mid (last' - 1) xs))"

fun introsort_loop ::
  "('a \<Rightarrow> 'a \<Rightarrow> bool) \<Rightarrow> nat \<Rightarrow> nat \<Rightarrow> nat \<Rightarrow> 'a list \<Rightarrow> 'a list option" where
  "introsort_loop cmp first last' 0 xs =
     (if last' - first > S_threshold then None else Some xs)"
| "introsort_loop cmp first last' (Suc depth_limit) xs =
     (if last' - first > S_threshold
      then (case unguarded_partition_pivot cmp first last' xs of
              (cut', xs1) \<Rightarrow>
                (case introsort_loop cmp cut' last' depth_limit xs1 of
                   None \<Rightarrow> None
                 | Some xs2 \<Rightarrow> introsort_loop cmp first cut' depth_limit xs2))
      else Some xs)"

function linear_insert :: "('a \<Rightarrow> 'a \<Rightarrow> bool) \<Rightarrow> 'a \<Rightarrow> nat \<Rightarrow> 'a list \<Rightarrow> 'a list" where
  "linear_insert cmp val last' xs =
     (if 0 < last' \<and> cmp val (xs ! (last' - 1))
      then linear_insert cmp val (last' - 1) (xs[last' := xs ! (last' - 1)])
      else xs[last' := val])"
  by pat_completeness auto
termination
  by (relation "measure (\<lambda>(cmp, val, last', xs). last')") auto

declare linear_insert.simps [simp del]

definition unguarded_linear_insert :: "('a \<Rightarrow> 'a \<Rightarrow> bool) \<Rightarrow> nat \<Rightarrow> 'a list \<Rightarrow> 'a list" where
  "unguarded_linear_insert cmp last' xs = linear_insert cmp (xs ! last') last' xs"

function insertion_loop :: "('a \<Rightarrow> 'a \<Rightarrow> bool) \<Rightarrow> nat \<Rightarrow> nat \<Rightarrow> nat \<Rightarrow> 'a list \<Rightarrow> 'a list" where
  "insertion_loop cmp first last' i xs =
     (if i < last'
      then insertion_loop cmp first last' (Suc i)
             (if cmp (xs ! i) (xs ! first)
              then take first xs @ xs ! i # take (i - first) (drop first xs) @ drop (Suc i) xs
              else unguarded_linear_insert cmp i xs)
      else xs)"
  by pat_completeness auto
termination
  by (relation "measure (\<lambda>(cmp, first, last', i, xs). last' - i)") auto

declare insertion_loop.simps [simp del]

definition insertion_sort :: "('a \<Rightarrow> 'a \<Rightarrow> bool) \<Rightarrow> nat \<Rightarrow> nat \<Rightarrow> 'a list \<Rightarrow> 'a list" where
  "insertion_sort cmp first last' xs =
     (if first = last' then xs else insertion_loop cmp first last' (first + 1) xs)"

function unguarded_insertion_sort :: "('a \<Rightarrow> 'a \<Rightarrow> bool) \<Rightarrow> nat \<Rightarrow> nat \<Rightarrow> 'a list \<Rightarrow> 'a list" where
  "unguarded_insertion_sort cmp i last' xs =
     (if i < last' then unguarded_insertion_sort cmp (Suc i) last' (unguarded_linear_insert cmp i xs)
      else xs)"
  by pat_completeness auto
termination
  by (relation "measure (\<lambda>(cmp, i, last', xs). last' - i)") auto

declare unguarded_insertion_sort.simps [simp del]

definition final_insertion_sort :: "('a \<Rightarrow> 'a \<Rightarrow> bool) \<Rightarrow> nat \<Rightarrow> nat \<Rightarrow> 'a list \<Rightarrow> 'a list" where
  "final_insertion_sort cmp first last' xs =
     (if last' - first > S_threshold
      then unguarded_insertion_sort cmp (first + S_threshold) last'
             (insertion_sort cmp first (first + S_threshold) xs)
      else insertion_sort cmp first last' xs)"

definition libstdcxx_sort :: "('a \<Rightarrow> 'a \<Rightarrow> bool) \<Rightarrow> 'a list \<Rightarrow> 'a list option" where
  "libstdcxx_sort cmp xs =
     (if xs = [] then Some xs
      else (case introsort_loop cmp 0 (length xs) (lg (length xs) * 2) xs of
              None \<Rightarrow> None
            | Some xs1 \<Rightarrow> Some (final_insertion_sort cmp 0 (length xs) xs1)))"

subsection \<open>Platforms and states for the examples\<close>

text \<open>A machine with two playback devices, the second being the default, on which every
  native call succeeds. Its \<open>std::sort\<close> happens to be stable, the estimator scales the frame
  count by the ratio of the rates, and the resampler fills the output with silence.\<close>

definition two_devices :: "ma_device_info list" where
  "two_devices =
     [\<lparr>info_id = 7, info_name = ''Speakers'', info_isDefault = 0\<rparr>,
      \<lparr>info_id = 9, info_name = ''Headset'', info_isDefault = 1\<rparr>]"

definition healthy :: platform where
  "healthy =
     \<lparr>std_sort = stable_order,
      ma_context_get_devices = (MA_SUCCESS, two_devices),
      ma_device_init = (\<lambda>_. MA_SUCCESS),
      ma_resampler_init = (\<lambda>_ _ _ _. MA_SUCCESS),
      ma_resampler_set_rate = (\<lambda>_ _ _. MA_SUCCESS),
      ma_resampler_get_expected_output_frame_count =
        (\<lambda>mr n. (MA_SUCCESS, n * ucast (sampleRateOut mr) div ucast (sampleRateIn mr))),
      ma_resampler_process_pcm_frames = (\<lambda>mr inp n cap. (MA_SUCCESS, cap, [])),
      ma_audio_buffer_init = (\<lambda>_ _. MA_SUCCESS),
      ma_sound_init_from_data_source = (\<lambda>_. MA_SUCCESS),
      empty_vector_data_is_null = True\<rparr>"

text \<open>The object as its constructor leaves it on that machine.\<close>

definition fresh :: Audio where
  "fresh = snd (Audio_ctor healthy)"

text \<open>The same machine with no playback device at all, and the object constructed there.\<close>

definition no_devices :: platform where
  "no_devices = healthy\<lparr>ma_context_get_devices := (MA_SUCCESS, [])\<rparr>"

definition deaf :: Audio where
  "deaf = snd (Audio_ctor no_devices)"




text \<open>The object after \<open>updateDevice\<close> has opened the default device, and after
  \<open>updateResampler\<close> has then built a resampler for mono 16-bit input at 22050 Hz.\<close>

definition opened :: Audio where
  "opened =
     fresh\<lparr>m_device := Some (CDevice 9), m_currentDeviceID := 9, m_hasCurrentDevice := True,
           trace := [spdlog debug ''Initializing new audio device'',
                     call_ma_device_init 9 MA_SUCCESS, call_ma_device_start 9]\<rparr>"

definition slow_mono :: ma_resampler where
  "slow_mono = \<lparr>format = ma_format_s16, channels = 1, sampleRateIn = 22050, sampleRateOut = 48000\<rparr>"

definition tuned :: Audio where
  "tuned =
     opened\<lparr>m_resampler := Some \<lparr>resampler = Some slow_mono\<rparr>,
            trace := trace opened @ [call_ma_resampler_init ma_format_s16 1 22050 48000 MA_SUCCESS]\<rparr>"

text \<open>Machines on which one native call fails.\<close>

definition enumeration_fails :: platform where
  "enumeration_fails = healthy\<lparr>ma_context_get_devices := (MA_ERROR, [])\<rparr>"

definition device_fails :: platform where
  "device_fails = healthy\<lparr>ma_device_init := (\<lambda>_. MA_ERROR)\<rparr>"

definition audio_buffer_fails :: platform where
  "audio_buffer_fails = healthy\<lparr>ma_audio_buffer_init := (\<lambda>_ _. MA_ERROR)\<rparr>"

definition sound_fails :: platform where
  "sound_fails = healthy\<lparr>ma_sound_init_from_data_source := (\<lambda>_. MA_ERROR)\<rparr>"

subsection \<open>The events that are not about the caller's buffer or a new sound\<close>

text \<open>Logging, the life of the device and of the resampler object, and the teardown of audio
  buffers and sounds. What remains is the release of the caller's buffer, the conversion by
  the resampler, and the construction and start of a sound.\<close>

fun housekeeping :: "event \<Rightarrow> bool" where
  "housekeeping (spdlog _ _) = True"
| "housekeeping (call_ma_device_init _ _) = True"
| "housekeeping (call_ma_device_start _) = True"
| "housekeeping (call_ma_device_uninit _) = True"
| "housekeeping (call_ma_resampler_init _ _ _ _ _) = True"
| "housekeeping call_ma_resampler_uninit = True"
| "housekeeping (call_ma_resampler_set_rate _ _ _) = True"
| "housekeeping call_ma_audio_buffer_uninit = True"
| "housekeeping call_ma_sound_uninit = True"
| "housekeeping _ = False"

section \<open>Properties\<close>

lemmas fixture_defs =
  healthy_def two_devices_def stable_order_def fresh_def deaf_def
  no_devices_def enumeration_fails_def device_fails_def audio_buffer_fails_def
  sound_fails_def Audio_ctor_def DeviceInfo_of_def MA_TRUE_def opened_def tuned_def slow_mono_def

lemmas play_defs =
  playAudioData_def playAudioData_convert_def playAudioData_build_def
  getDevicesList_def updateDevice_def updateResampler_def replaceResampler_def freeSounds_def
  CDevice_ctor_def CDevice_dtor_def CResampler_ctor_def CResampler_dtor_def setRate_def
  processAudioData_def SoundPayload_dtor_def emit_def emits_def determineFormat_def
  frameCountIn_of_def pcmSize_def vector_resize_def vector_data_def AUDIO_DEFAULT_SAMPLE_RATE_def

subsection \<open>The states of the examples\<close>

lemma fresh_eq:
  "fresh =
     \<lparr>m_device = None, m_resampler = None, m_selectedDeviceID = 9, m_currentDeviceID = 0,
      m_hasCurrentDevice = False,
      m_lastDevicesList = [\<lparr>id' = 9, name = ''Headset'', isDefault = True\<rparr>,
                           \<lparr>id' = 7, name = ''Speakers'', isDefault = False\<rparr>],
      sounds = [], trace = []\<rparr>"
  by (simp add: fixture_defs getDevicesList_def)

lemma deaf_eq:
  "deaf =
     \<lparr>m_device = None, m_resampler = None, m_selectedDeviceID = 0, m_currentDeviceID = 0,
      m_hasCurrentDevice = False, m_lastDevicesList = [], sounds = [],
      trace = [spdlog warn ''No audio devices found during Audio initialization'']\<rparr>"
  by (simp add: fixture_defs getDevicesList_def emit_def)

subsection \<open>\<open>determineFormat\<close> and the first exits of \<open>playAudioData\<close>\<close>

lemma playAudioData_unknown_format:
  "determineFormat bitsPerSample = ma_format_unknown \<Longrightarrow>
   \<exists>msg. playAudioData env chans sampleRate bitsPerSample bufferSize (Some bytes) a =
           (Inr False, a\<lparr>trace := trace a @ [spdlog err msg, free_buffer]\<rparr>)"
  by (auto simp add: playAudioData_def playAudioData_convert_def emits_def)

lemma playAudioData_null:
  "playAudioData env chans sampleRate bitsPerSample bufferSize None a =
     (Inr False, a\<lparr>trace := trace a @ [spdlog err ''Speech buffer was nullptr'']\<rparr>)"
  by (simp add: playAudioData_def playAudioData_convert_def emit_def)

text \<open>
  Claim C5. \<open>determineFormat\<close> maps 8, 16, 24 and 32 bits to \<open>u8\<close>, \<open>s16\<close>, \<open>s24\<close> and \<open>s32\<close>
  and every other value to the unknown format; \<open>playAudioData\<close> returns \<open>false\<close> for every bit
  depth that maps to unknown. With a buffer, that buffer is released exactly once, nothing
  else happens and the object is unchanged; without one, the answer is \<open>false\<close> as well.
\<close>

theorem determineFormat_table_and_rejection:
  "determineFormat 8 = ma_format_u8 \<and> determineFormat 16 = ma_format_s16 \<and>
   determineFormat 24 = ma_format_s24 \<and> determineFormat 32 = ma_format_s32 \<and>
   (bitsPerSample \<notin> {8, 16, 24, 32} \<longrightarrow> determineFormat bitsPerSample = ma_format_unknown) \<and>
   (determineFormat bitsPerSample = ma_format_unknown \<longrightarrow>
      (\<exists>msg. playAudioData env chans sampleRate bitsPerSample bufferSize (Some bytes) a =
               (Inr False, a\<lparr>trace := trace a @ [spdlog err msg, free_buffer]\<rparr>)) \<and>
      fst (playAudioData env chans sampleRate bitsPerSample bufferSize None a) = Inr False)"
proof -
  have table: "determineFormat 8 = ma_format_u8" "determineFormat 16 = ma_format_s16"
    "determineFormat 24 = ma_format_s24" "determineFormat 32 = ma_format_s32"
    by (simp_all add: determineFormat_def)
  have other: "bitsPerSample \<notin> {8, 16, 24, 32} \<longrightarrow> determineFormat bitsPerSample = ma_format_unknown"
    by (simp add: determineFormat_def)
  show ?thesis
    using table other playAudioData_unknown_format [of bitsPerSample env chans sampleRate bufferSize bytes a]
    by (simp add: playAudioData_null)
qed

theorem determineFormat_table_and_rejection_witness:
  "(12 :: 32 word) \<notin> {8, 16, 24, 32} \<and> determineFormat 12 = ma_format_unknown \<and>
   playAudioData healthy 1 22050 12 4 (Some [1, 2, 3, 4]) fresh =
     (Inr False,
      fresh\<lparr>trace := trace fresh @ [spdlog err ''Unsupported bits per sample value: {}'', free_buffer]\<rparr>)"
  using determineFormat_table_and_rejection
    [where bitsPerSample = 12 and env = healthy and chans = 1 and sampleRate = 22050
       and bufferSize = 4 and bytes = "[1, 2, 3, 4]" and a = fresh]
  by (simp add: playAudioData_def playAudioData_convert_def determineFormat_def emits_def)

text \<open>
  Claim C6. With a buffer of length zero, positive channels and sample rate and a supported
  bit depth, \<open>playAudioData\<close> releases the buffer, returns \<open>true\<close> and does nothing else: the
  registry, the device and the resampler are as before and no native call is made.
\<close>

theorem empty_buffer_is_success:
  assumes "0 < sint chans" and "0 < sint sampleRate" and "bitsPerSample \<in> {8, 16, 24, 32}"
  shows "playAudioData env chans sampleRate bitsPerSample 0 (Some bytes) a =
           (Inr True, a\<lparr>trace := trace a @ [free_buffer]\<rparr>)"
  using assms
  by (auto simp add: determineFormat_def playAudioData_def playAudioData_convert_def emit_def)

theorem empty_buffer_is_success_witness:
  "0 < sint (2 :: 32 word) \<and> 0 < sint (22050 :: 32 word) \<and> (16 :: 32 word) \<in> {8, 16, 24, 32} \<and>
   playAudioData healthy 2 22050 16 0 (Some []) fresh =
     (Inr True, fresh\<lparr>trace := trace fresh @ [free_buffer]\<rparr>) \<and>
   sounds fresh = []"
  using empty_buffer_is_success [of 2 22050 16 healthy "[]" fresh]
  by (simp add: fresh_eq)

subsection \<open>Device enumeration and selection\<close>

lemma getDevicesList_empty:
  "fst (getDevicesList env a) = Inr [] \<Longrightarrow>
   getDevicesList env a = (Inr [], a\<lparr>m_lastDevicesList := []\<rparr>)"
  by (auto simp add: getDevicesList_def Let_def split: prod.splits if_splits)

text \<open>
  Claim C10. When the enumeration inside \<open>playAudioData\<close> answers an empty list, the function
  logs an error, releases the buffer once and returns \<open>false\<close> (it does not throw). The empty
  list is stored as the last enumeration; the device, the resampler, the registry and the two
  identities are as before.
\<close>

theorem no_devices_is_a_failure:
  assumes "0 < sint chans" and "0 < sint sampleRate" and "bitsPerSample \<in> {8, 16, 24, 32}"
    and "bufferSize \<noteq> 0" and "fst (getDevicesList env a) = Inr []"
  shows "playAudioData env chans sampleRate bitsPerSample bufferSize (Some bytes) a =
           (Inr False,
            a\<lparr>m_lastDevicesList := [],
              trace := trace a @ [spdlog err ''No playback devices are available'', free_buffer]\<rparr>)"
  using assms(1-4) getDevicesList_empty [OF assms(5)]
  by (auto simp add: determineFormat_def playAudioData_def playAudioData_convert_def emits_def)

theorem no_devices_is_a_failure_witness:
  "0 < sint (1 :: 32 word) \<and> 0 < sint (22050 :: 32 word) \<and> (16 :: 32 word) \<in> {8, 16, 24, 32} \<and>
   (4 :: 64 word) \<noteq> 0 \<and> fst (getDevicesList no_devices fresh) = Inr [] \<and>
   playAudioData no_devices 1 22050 16 4 (Some [1, 2, 3, 4]) fresh =
     (Inr False,
      fresh\<lparr>m_lastDevicesList := [],
            trace := trace fresh @ [spdlog err ''No playback devices are available'', free_buffer]\<rparr>)"
  using no_devices_is_a_failure [of 1 22050 16 4 no_devices fresh "[1, 2, 3, 4]"]
  by (simp add: getDevicesList_def fixture_defs)

lemma selectDevice_empty:
  "m_lastDevicesList a = [] \<Longrightarrow>
   selectDevice i a =
     a\<lparr>trace := trace a @ [spdlog warn ''Cannot select audio device: device list is empty'']\<rparr>"
  by (simp add: selectDevice_def emit_def)

lemma selectDevice_fallback:
  "m_lastDevicesList a \<noteq> [] \<Longrightarrow> length (m_lastDevicesList a) \<le> unat i \<Longrightarrow>
   selectDevice i a =
     a\<lparr>m_selectedDeviceID := id' (m_lastDevicesList a ! 0),
       trace := trace a @ [spdlog warn ''Device index {} is out of range. Falling back to 0.'']\<rparr>"
  by (simp add: selectDevice_def emit_def)

lemma selectDevice_in_range:
  "unat i < length (m_lastDevicesList a) \<Longrightarrow>
   selectDevice i a = a\<lparr>m_selectedDeviceID := id' (m_lastDevicesList a ! unat i)\<rparr>"
  by (auto simp add: selectDevice_def)

text \<open>
  Claim C9, as stated, fails where the last enumeration is empty: every index is out of range
  there, and \<open>selectDevice\<close> returns at its first test. It logs that the list is empty, does not
  log the fall back to 0 and records nothing, the desired identity staying what it was.
\<close>

theorem selectDevice_empty_list_counterexample:
  "m_lastDevicesList deaf = [] \<and> length (m_lastDevicesList deaf) \<le> unat (3 :: 64 word) \<and>
   selectDevice 3 deaf =
     deaf\<lparr>trace := trace deaf @ [spdlog warn ''Cannot select audio device: device list is empty'']\<rparr> \<and>
   m_selectedDeviceID (selectDevice 3 deaf) = m_selectedDeviceID deaf \<and>
   spdlog warn ''Device index {} is out of range. Falling back to 0.'' \<notin> set (trace (selectDevice 3 deaf))"
  by (simp add: deaf_eq selectDevice_def emit_def)

text \<open>
  Claim C9, amended. For an index that is out of range: when the last enumeration is not
  empty, \<open>selectDevice\<close> logs the fall back to 0 and records the identity of the descriptor at
  index 0 as the desired one; when it is empty, \<open>selectDevice\<close> logs that and records nothing.
  In both cases the function returns (its model has no failure), logging is its only effect,
  and the open device and its identity are untouched.
\<close>

theorem selectDevice_out_of_range:
  "length (m_lastDevicesList a) \<le> unat i \<longrightarrow>
     (m_lastDevicesList a \<noteq> [] \<longrightarrow>
        selectDevice i a =
          a\<lparr>m_selectedDeviceID := id' (m_lastDevicesList a ! 0),
            trace := trace a @ [spdlog warn ''Device index {} is out of range. Falling back to 0.'']\<rparr>) \<and>
     (m_lastDevicesList a = [] \<longrightarrow>
        selectDevice i a =
          a\<lparr>trace := trace a @ [spdlog warn ''Cannot select audio device: device list is empty'']\<rparr>) \<and>
     m_device (selectDevice i a) = m_device a \<and>
     m_currentDeviceID (selectDevice i a) = m_currentDeviceID a \<and>
     m_hasCurrentDevice (selectDevice i a) = m_hasCurrentDevice a"
  by (simp add: selectDevice_def emit_def)

theorem selectDevice_out_of_range_witness:
  "length (m_lastDevicesList (selectDevice 1 fresh)) \<le> unat (999 :: 64 word) \<and>
   m_lastDevicesList (selectDevice 1 fresh) \<noteq> [] \<and>
   m_selectedDeviceID (selectDevice 1 fresh) = 7 \<and>
   m_selectedDeviceID (selectDevice 999 (selectDevice 1 fresh)) = 9 \<and>
   length (m_lastDevicesList deaf) \<le> unat (999 :: 64 word) \<and> m_lastDevicesList deaf = [] \<and>
   m_selectedDeviceID (selectDevice 999 deaf) = m_selectedDeviceID deaf"
  using selectDevice_out_of_range [of "selectDevice 1 fresh" 999]
    selectDevice_out_of_range [of deaf 999]
  by (simp add: selectDevice_in_range selectDevice_fallback fresh_eq deaf_eq)


text \<open>On the two devices of the machine \<open>healthy\<close> the sort of libstdc++ answers what that
  machine's \<open>std::sort\<close> answers.\<close>

lemma healthy_sort_is_libstdcxx:
  "libstdcxx_sort isDefault_greater (map DeviceInfo_of two_devices) =
     Some (std_sort healthy (map DeviceInfo_of two_devices))"
  by code_simp




subsection \<open>What the steps before the conversion leave in the history\<close>

text \<open>Enumeration, reclamation, \<open>updateDevice\<close> and \<open>updateResampler\<close> add housekeeping events
  only, whatever their outcome.\<close>

lemma count_emit_housekeeping:
  "\<not> housekeeping e \<Longrightarrow> housekeeping e' \<Longrightarrow> count_list (trace (emit e' a)) e = count_list (trace a) e"
  by (auto simp add: emit_def)

lemma getDevicesList_quiet:
  "\<not> housekeeping e \<Longrightarrow> getDevicesList env a = (r, a1) \<Longrightarrow> count_list (trace a1) e = count_list (trace a) e"
  by (auto simp add: getDevicesList_def Let_def emit_def split: prod.splits if_splits)

lemma SoundPayload_dtor_quiet:
  "\<not> housekeeping e \<Longrightarrow> count_list (trace (SoundPayload_dtor p a)) e = count_list (trace a) e"
  by (auto simp add: SoundPayload_dtor_def Let_def emit_def)

lemma remove_if_sounds_quiet:
  "\<not> housekeeping e \<Longrightarrow> remove_if_sounds b ss a = (kept, n, a1) \<Longrightarrow>
   count_list (trace a1) e = count_list (trace a) e"
proof (induction ss arbitrary: a kept n)
  case Nil
  then show ?case by simp
next
  case (Cons s ss)
  then show ?case
    by (auto simp add: SoundPayload_dtor_quiet split: option.splits if_splits prod.splits)
qed

lemma freeSounds_quiet:
  "\<not> housekeeping e \<Longrightarrow> count_list (trace (freeSounds b a)) e = count_list (trace a) e"
  by (auto simp add: freeSounds_def Let_def emit_def split: prod.splits dest: remove_if_sounds_quiet)

lemma updateDevice_quiet:
  "\<not> housekeeping e \<Longrightarrow> updateDevice env a = (r, a1) \<Longrightarrow> count_list (trace a1) e = count_list (trace a) e"
  by (auto simp add: updateDevice_def CDevice_ctor_def CDevice_dtor_def Let_def emit_def
      split: prod.splits if_splits option.splits)

lemma updateResampler_quiet:
  "\<not> housekeeping e \<Longrightarrow> updateResampler env fmt chans rateIn rateOut a = (r, a1) \<Longrightarrow>
   count_list (trace a1) e = count_list (trace a) e"
  by (auto simp add: updateResampler_def replaceResampler_def CResampler_ctor_def CResampler_dtor_def
        setRate_def Let_def emit_def
      split: prod.splits if_splits option.splits)


lemma convert_payload:
  "playAudioData_convert env chans sampleRate bits bufferSize buffer a = Inr (fmt, n, p, a1) \<Longrightarrow>
   sound p = None \<and> audioBuffer p = None \<and> fmt = determineFormat bits"
  by (auto simp add: playAudioData_convert_def Let_def
      split: option.splits if_splits prod.splits sum.splits)

lemma processAudioData_quiet:
  "processAudioData env r pin n pout cap a = (res, a1) \<Longrightarrow>
   count_list (trace a1) free_buffer = count_list (trace a) free_buffer"
  by (auto simp add: processAudioData_def emit_def split: option.splits prod.splits)

lemma convert_released:
  assumes "playAudioData_convert env chans sampleRate bits bufferSize buffer a = Inr (fmt, n, p, a1)"
  shows "count_list (trace a1) free_buffer = Suc (count_list (trace a) free_buffer)"
  using assms
  by (auto simp add: playAudioData_convert_def Let_def emit_def freeSounds_quiet
      split: option.splits if_splits prod.splits sum.splits
      dest!: getDevicesList_quiet [where e = free_buffer, rotated]
             updateDevice_quiet [where e = free_buffer, rotated]
             updateResampler_quiet [where e = free_buffer, rotated]
             processAudioData_quiet)


subsection \<open>\<open>updateDevice\<close>\<close>

lemma updateDevice_same:
  "m_hasCurrentDevice a \<Longrightarrow> m_currentDeviceID a = m_selectedDeviceID a \<Longrightarrow> updateDevice env a = (Inr (), a)"
  by (simp add: updateDevice_def)

lemma updateDevice_open:
  "\<not> (m_hasCurrentDevice a \<and> m_currentDeviceID a = m_selectedDeviceID a) \<Longrightarrow>
   ma_device_init env (m_selectedDeviceID a) = MA_SUCCESS \<Longrightarrow>
   updateDevice env a =
     (Inr (), a\<lparr>m_device := Some (CDevice (m_selectedDeviceID a)),
                m_currentDeviceID := m_selectedDeviceID a, m_hasCurrentDevice := True,
                trace := trace a @
                  [spdlog debug ''Initializing new audio device'',
                   call_ma_device_init (m_selectedDeviceID a) MA_SUCCESS] @
                  (case m_device a of None \<Rightarrow> [] | Some old \<Rightarrow> [call_ma_device_uninit (device old)]) @
                  [call_ma_device_start (m_selectedDeviceID a)]\<rparr>)"
  by (cases "m_device a") (auto simp add: updateDevice_def CDevice_ctor_def CDevice_dtor_def emit_def)

lemma updateDevice_throws:
  "\<not> (m_hasCurrentDevice a \<and> m_currentDeviceID a = m_selectedDeviceID a) \<Longrightarrow>
   ma_device_init env (m_selectedDeviceID a) \<noteq> MA_SUCCESS \<Longrightarrow>
   updateDevice env a =
     (Inl StdException,
      a\<lparr>trace := trace a @
           [spdlog debug ''Initializing new audio device'',
            call_ma_device_init (m_selectedDeviceID a) (ma_device_init env (m_selectedDeviceID a)),
            spdlog err ''Failed to initialize audio device: {}'']\<rparr>)"
  by (auto simp add: updateDevice_def CDevice_ctor_def emit_def)

lemma updateDevice_twice:
  "updateDevice env a = (Inr (), a1) \<Longrightarrow> updateDevice env1 a1 = (Inr (), a1)"
  by (auto simp add: updateDevice_def CDevice_ctor_def CDevice_dtor_def emit_def Let_def
      split: if_splits option.splits)

text \<open>
  Claim C7. When a device is open and its identity is the desired one, \<open>updateDevice\<close> does
  nothing: the object is the same and no native call is made. Otherwise, when the backend
  opens the desired device, a new \<open>CDevice\<close> on the desired identity is built, the device held
  before (if any) is closed, the new one is started, and it is recorded as the open device.
  Hence a second \<open>updateDevice\<close> right after a successful one does nothing, on any platform.
\<close>

theorem updateDevice_is_lazy:
  "(m_hasCurrentDevice a \<and> m_currentDeviceID a = m_selectedDeviceID a \<longrightarrow>
      updateDevice env a = (Inr (), a)) \<and>
   (\<not> (m_hasCurrentDevice a \<and> m_currentDeviceID a = m_selectedDeviceID a) \<and>
    ma_device_init env (m_selectedDeviceID a) = MA_SUCCESS \<longrightarrow>
      updateDevice env a =
        (Inr (), a\<lparr>m_device := Some (CDevice (m_selectedDeviceID a)),
                   m_currentDeviceID := m_selectedDeviceID a, m_hasCurrentDevice := True,
                   trace := trace a @
                     [spdlog debug ''Initializing new audio device'',
                      call_ma_device_init (m_selectedDeviceID a) MA_SUCCESS] @
                     (case m_device a of None \<Rightarrow> [] | Some old \<Rightarrow> [call_ma_device_uninit (device old)]) @
                     [call_ma_device_start (m_selectedDeviceID a)]\<rparr>)) \<and>
   (updateDevice env a = (Inr (), a1) \<longrightarrow> updateDevice env1 a1 = (Inr (), a1))"
  using updateDevice_same [of a env] updateDevice_open [of a env] updateDevice_twice [of env a a1 env1]
  by blast

theorem updateDevice_is_lazy_witness:
  "\<not> (m_hasCurrentDevice fresh \<and> m_currentDeviceID fresh = m_selectedDeviceID fresh) \<and>
   ma_device_init healthy (m_selectedDeviceID fresh) = MA_SUCCESS \<and>
   updateDevice healthy fresh = (Inr (), opened) \<and>
   m_hasCurrentDevice opened \<and> m_currentDeviceID opened = m_selectedDeviceID opened \<and>
   updateDevice healthy opened = (Inr (), opened) \<and>
   updateDevice healthy (selectDevice 1 opened) =
     (Inr (), opened\<lparr>m_device := Some (CDevice 7), m_selectedDeviceID := 7, m_currentDeviceID := 7,
                      trace := trace opened @
                        [spdlog debug ''Initializing new audio device'', call_ma_device_init 7 MA_SUCCESS,
                         call_ma_device_uninit 9, call_ma_device_start 7]\<rparr>)"
  using updateDevice_is_lazy [of fresh healthy opened healthy]
    updateDevice_is_lazy [of opened healthy opened healthy]
    updateDevice_is_lazy [of "selectDevice 1 opened" healthy opened healthy]
  by (simp add: opened_def fresh_eq healthy_def selectDevice_def)

subsection \<open>\<open>updateResampler\<close>\<close>

lemma CResampler_eqI:
  "resampler r = Some mr \<Longrightarrow> (r :: CResampler) = \<lparr>resampler = Some mr\<rparr>"
  by (cases r) simp

lemma updateResampler_new:
  "m_resampler a = None \<or>
     (m_resampler a = Some \<lparr>resampler = Some mr\<rparr> \<and> (format mr \<noteq> fmt \<or> channels mr \<noteq> chans)) \<Longrightarrow>
   ma_resampler_init env fmt chans rateIn rateOut = MA_SUCCESS \<Longrightarrow>
   updateResampler env fmt chans rateIn rateOut a =
     (Inr (), a\<lparr>m_resampler := Some \<lparr>resampler = Some \<lparr>format = fmt, channels = chans,
                                       sampleRateIn = rateIn, sampleRateOut = rateOut\<rparr>\<rparr>,
                trace := trace a @ call_ma_resampler_init fmt chans rateIn rateOut MA_SUCCESS #
                           (if m_resampler a = None then [] else [call_ma_resampler_uninit])\<rparr>)"
  by (auto simp add: updateResampler_def replaceResampler_def CResampler_ctor_def CResampler_dtor_def emit_def)

lemma updateResampler_new_throws:
  "m_resampler a = None \<or>
     (m_resampler a = Some \<lparr>resampler = Some mr\<rparr> \<and> (format mr \<noteq> fmt \<or> channels mr \<noteq> chans)) \<Longrightarrow>
   ma_resampler_init env fmt chans rateIn rateOut \<noteq> MA_SUCCESS \<Longrightarrow>
   updateResampler env fmt chans rateIn rateOut a =
     (Inl StdException,
      a\<lparr>trace := trace a @
          [call_ma_resampler_init fmt chans rateIn rateOut (ma_resampler_init env fmt chans rateIn rateOut),
           spdlog err ''Failed to initialize resampler: {}'']\<rparr>)"
  by (auto simp add: updateResampler_def replaceResampler_def CResampler_ctor_def CResampler_dtor_def emit_def)

lemma updateResampler_noop:
  "m_resampler a = Some \<lparr>resampler = Some mr\<rparr> \<Longrightarrow> format mr = fmt \<Longrightarrow> channels mr = chans \<Longrightarrow>
   updateResampler env fmt chans rate rate a = (Inr (), a)"
  by (simp add: updateResampler_def)

lemma updateResampler_rate:
  "m_resampler a = Some \<lparr>resampler = Some mr\<rparr> \<Longrightarrow> format mr = fmt \<Longrightarrow> channels mr = chans \<Longrightarrow>
   rateIn \<noteq> rateOut \<Longrightarrow> ma_resampler_set_rate env mr rateIn rateOut = MA_SUCCESS \<Longrightarrow>
   updateResampler env fmt chans rateIn rateOut a =
     (Inr (), a\<lparr>m_resampler := Some \<lparr>resampler = Some (mr\<lparr>sampleRateIn := rateIn, sampleRateOut := rateOut\<rparr>)\<rparr>,
                trace := trace a @ [call_ma_resampler_set_rate rateIn rateOut MA_SUCCESS]\<rparr>)"
  by (simp add: updateResampler_def setRate_def emit_def)

lemma updateResampler_rate_throws:
  "m_resampler a = Some \<lparr>resampler = Some mr\<rparr> \<Longrightarrow> format mr = fmt \<Longrightarrow> channels mr = chans \<Longrightarrow>
   rateIn \<noteq> rateOut \<Longrightarrow> ma_resampler_set_rate env mr rateIn rateOut \<noteq> MA_SUCCESS \<Longrightarrow>
   updateResampler env fmt chans rateIn rateOut a =
     (Inl StdException,
      a\<lparr>trace := trace a @
          [call_ma_resampler_set_rate rateIn rateOut (ma_resampler_set_rate env mr rateIn rateOut),
           spdlog err ''Failed to set sample rate: {}'']\<rparr>)"
  by (simp add: updateResampler_def setRate_def emit_def Let_def)

lemma updateResampler_matches:
  "updateResampler env fmt chans rateIn rateOut a = (Inr (), a1) \<Longrightarrow>
   \<exists>mr. m_resampler a1 = Some \<lparr>resampler = Some mr\<rparr> \<and> format mr = fmt \<and> channels mr = chans"
  by (auto simp add: updateResampler_def replaceResampler_def CResampler_ctor_def CResampler_dtor_def
        setRate_def emit_def Let_def
      split: option.splits if_splits dest!: CResampler_eqI)

lemma updateResampler_second_call:
  assumes "updateResampler env fmt chans rateIn rateOut a = (Inr (), a1)"
  shows "\<exists>mr. m_resampler a1 = Some \<lparr>resampler = Some mr\<rparr> \<and>
           updateResampler env1 fmt chans rateOut1 rateOut1 a1 = (Inr (), a1) \<and>
           (rate2 \<noteq> rateOut1 \<and> ma_resampler_set_rate env1 mr rate2 rateOut1 = MA_SUCCESS \<longrightarrow>
              updateResampler env1 fmt chans rate2 rateOut1 a1 =
                (Inr (), a1\<lparr>m_resampler := Some \<lparr>resampler = Some (mr\<lparr>sampleRateIn := rate2,
                                                                      sampleRateOut := rateOut1\<rparr>)\<rparr>,
                            trace := trace a1 @ [call_ma_resampler_set_rate rate2 rateOut1 MA_SUCCESS]\<rparr>))"
proof -
  from updateResampler_matches [OF assms]
  obtain mr where mr: "m_resampler a1 = Some \<lparr>resampler = Some mr\<rparr>" "format mr = fmt" "channels mr = chans"
    by blast
  show ?thesis
    using mr updateResampler_noop [OF mr, of env1 rateOut1]
      updateResampler_rate [OF mr, of rate2 rateOut1 env1]
    by blast
qed

text \<open>
  Claim C3. \<open>updateResampler\<close> decides as follows, when the native call it makes succeeds.
  Without a resampler, or with one of another format or channel count, a new resampler is
  initialised for the given format, channels and rates, and the old one, if any, is
  uninitialised. With a resampler of the same format and channels and equal rates, nothing
  happens. With a resampler of the same format and channels and different rates, the rate
  pair of the existing resampler is set and no resampler is initialised or uninitialised.
  Hence, after a successful call for a format and channel count, a second call for the same
  two, whatever its input rate, never builds a resampler: it does nothing when its rates are
  equal and sets the rate pair otherwise.
\<close>

theorem updateResampler_decisions:
  "((m_resampler a = None \<or>
       (m_resampler a = Some \<lparr>resampler = Some mr\<rparr> \<and> (format mr \<noteq> fmt \<or> channels mr \<noteq> chans))) \<and>
    ma_resampler_init env fmt chans rateIn rateOut = MA_SUCCESS \<longrightarrow>
      updateResampler env fmt chans rateIn rateOut a =
        (Inr (), a\<lparr>m_resampler := Some \<lparr>resampler = Some \<lparr>format = fmt, channels = chans,
                                          sampleRateIn = rateIn, sampleRateOut = rateOut\<rparr>\<rparr>,
                   trace := trace a @ call_ma_resampler_init fmt chans rateIn rateOut MA_SUCCESS #
                              (if m_resampler a = None then [] else [call_ma_resampler_uninit])\<rparr>)) \<and>
   (m_resampler a = Some \<lparr>resampler = Some mr\<rparr> \<and> format mr = fmt \<and> channels mr = chans \<and>
    rateIn = rateOut \<longrightarrow>
      updateResampler env fmt chans rateIn rateOut a = (Inr (), a)) \<and>
   (m_resampler a = Some \<lparr>resampler = Some mr\<rparr> \<and> format mr = fmt \<and> channels mr = chans \<and>
    rateIn \<noteq> rateOut \<and> ma_resampler_set_rate env mr rateIn rateOut = MA_SUCCESS \<longrightarrow>
      updateResampler env fmt chans rateIn rateOut a =
        (Inr (), a\<lparr>m_resampler := Some \<lparr>resampler = Some (mr\<lparr>sampleRateIn := rateIn,
                                                            sampleRateOut := rateOut\<rparr>)\<rparr>,
                   trace := trace a @ [call_ma_resampler_set_rate rateIn rateOut MA_SUCCESS]\<rparr>)) \<and>
   (updateResampler env fmt chans rateIn rateOut a = (Inr (), a') \<longrightarrow>
      (\<exists>mr1. m_resampler a' = Some \<lparr>resampler = Some mr1\<rparr> \<and>
         updateResampler env' fmt chans rateOut' rateOut' a' = (Inr (), a') \<and>
         (rate' \<noteq> rateOut' \<and> ma_resampler_set_rate env' mr1 rate' rateOut' = MA_SUCCESS \<longrightarrow>
            updateResampler env' fmt chans rate' rateOut' a' =
              (Inr (), a'\<lparr>m_resampler := Some \<lparr>resampler = Some (mr1\<lparr>sampleRateIn := rate',
                                                                     sampleRateOut := rateOut'\<rparr>)\<rparr>,
                          trace := trace a' @ [call_ma_resampler_set_rate rate' rateOut' MA_SUCCESS]\<rparr>))))"
proof (intro conjI impI)
  assume "(m_resampler a = None \<or>
       (m_resampler a = Some \<lparr>resampler = Some mr\<rparr> \<and> (format mr \<noteq> fmt \<or> channels mr \<noteq> chans))) \<and>
    ma_resampler_init env fmt chans rateIn rateOut = MA_SUCCESS"
  then show "updateResampler env fmt chans rateIn rateOut a =
        (Inr (), a\<lparr>m_resampler := Some \<lparr>resampler = Some \<lparr>format = fmt, channels = chans,
                                          sampleRateIn = rateIn, sampleRateOut = rateOut\<rparr>\<rparr>,
                   trace := trace a @ call_ma_resampler_init fmt chans rateIn rateOut MA_SUCCESS #
                              (if m_resampler a = None then [] else [call_ma_resampler_uninit])\<rparr>)"
    using updateResampler_new [of a mr fmt chans env rateIn rateOut] by blast
next
  assume "m_resampler a = Some \<lparr>resampler = Some mr\<rparr> \<and> format mr = fmt \<and> channels mr = chans \<and>
    rateIn = rateOut"
  then show "updateResampler env fmt chans rateIn rateOut a = (Inr (), a)"
    using updateResampler_noop [of a mr fmt chans env rateIn] by blast
next
  assume "m_resampler a = Some \<lparr>resampler = Some mr\<rparr> \<and> format mr = fmt \<and> channels mr = chans \<and>
    rateIn \<noteq> rateOut \<and> ma_resampler_set_rate env mr rateIn rateOut = MA_SUCCESS"
  then show "updateResampler env fmt chans rateIn rateOut a =
        (Inr (), a\<lparr>m_resampler := Some \<lparr>resampler = Some (mr\<lparr>sampleRateIn := rateIn,
                                                            sampleRateOut := rateOut\<rparr>)\<rparr>,
                   trace := trace a @ [call_ma_resampler_set_rate rateIn rateOut MA_SUCCESS]\<rparr>)"
    using updateResampler_rate [of a mr fmt chans rateIn rateOut env] by blast
next
  assume "updateResampler env fmt chans rateIn rateOut a = (Inr (), a')"
  then show "\<exists>mr1. m_resampler a' = Some \<lparr>resampler = Some mr1\<rparr> \<and>
         updateResampler env' fmt chans rateOut' rateOut' a' = (Inr (), a') \<and>
         (rate' \<noteq> rateOut' \<and> ma_resampler_set_rate env' mr1 rate' rateOut' = MA_SUCCESS \<longrightarrow>
            updateResampler env' fmt chans rate' rateOut' a' =
              (Inr (), a'\<lparr>m_resampler := Some \<lparr>resampler = Some (mr1\<lparr>sampleRateIn := rate',
                                                                     sampleRateOut := rateOut'\<rparr>)\<rparr>,
                          trace := trace a' @ [call_ma_resampler_set_rate rate' rateOut' MA_SUCCESS]\<rparr>))"
    by (rule updateResampler_second_call)
qed

theorem updateResampler_decisions_witness:
  "m_resampler opened = None \<and> ma_resampler_init healthy ma_format_s16 1 22050 48000 = MA_SUCCESS \<and>
   updateResampler healthy ma_format_s16 1 22050 48000 opened = (Inr (), tuned) \<and>
   m_resampler tuned = Some \<lparr>resampler = Some slow_mono\<rparr> \<and>
   format slow_mono = ma_format_s16 \<and> channels slow_mono = 1 \<and> (44100 :: 32 word) \<noteq> 48000 \<and>
   ma_resampler_set_rate healthy slow_mono 44100 48000 = MA_SUCCESS \<and>
   updateResampler healthy ma_format_s16 1 44100 48000 tuned =
     (Inr (), tuned\<lparr>m_resampler := Some \<lparr>resampler = Some (slow_mono\<lparr>sampleRateIn := 44100\<rparr>)\<rparr>,
                    trace := trace tuned @ [call_ma_resampler_set_rate 44100 48000 MA_SUCCESS]\<rparr>) \<and>
   updateResampler healthy ma_format_s16 1 48000 48000 tuned = (Inr (), tuned) \<and>
   channels slow_mono \<noteq> 2 \<and> ma_resampler_init healthy ma_format_s16 2 22050 48000 = MA_SUCCESS \<and>
   updateResampler healthy ma_format_s16 2 22050 48000 tuned =
     (Inr (), tuned\<lparr>m_resampler := Some \<lparr>resampler = Some (slow_mono\<lparr>channels := 2\<rparr>)\<rparr>,
                    trace := trace tuned @ [call_ma_resampler_init ma_format_s16 2 22050 48000 MA_SUCCESS,
                                            call_ma_resampler_uninit]\<rparr>)"
  using updateResampler_decisions
      [where a = opened and env = healthy and fmt = ma_format_s16 and chans = 1 and rateIn = 22050
         and rateOut = 48000 and a' = tuned and env' = healthy and rate' = 44100 and rateOut' = 48000]
    updateResampler_decisions
      [where a = tuned and mr = slow_mono and env = healthy and fmt = ma_format_s16 and chans = 2
         and rateIn = 22050 and rateOut = 48000]
  by (simp add: opened_def tuned_def slow_mono_def fresh_eq healthy_def)

subsection \<open>The release of the caller's buffer\<close>

lemma convert_left_released:
  assumes "playAudioData_convert env chans sampleRate bits bufferSize (Some bytes) a = Inl (Inr ok, a1)"
  shows "count_list (trace a1) free_buffer = Suc (count_list (trace a) free_buffer)"
  using assms
  by (auto simp add: playAudioData_convert_def Let_def emit_def emits_def freeSounds_quiet SoundPayload_dtor_quiet
      split: option.splits if_splits prod.splits sum.splits
      dest!: getDevicesList_quiet [where e = free_buffer, rotated]
             updateDevice_quiet [where e = free_buffer, rotated]
             updateResampler_quiet [where e = free_buffer, rotated]
             processAudioData_quiet)

lemma convert_left_thrown:
  assumes "playAudioData_convert env chans sampleRate bits bufferSize buffer a = Inl (Inl f, a1)"
  shows "count_list (trace a1) free_buffer = count_list (trace a) free_buffer"
  using assms
  by (auto simp add: playAudioData_convert_def Let_def emit_def emits_def freeSounds_quiet SoundPayload_dtor_quiet
      split: option.splits if_splits prod.splits sum.splits
      dest!: getDevicesList_quiet [where e = free_buffer, rotated]
             updateDevice_quiet [where e = free_buffer, rotated]
             updateResampler_quiet [where e = free_buffer, rotated]
             processAudioData_quiet)

lemma build_returns:
  "playAudioData_build env fmt chans n p a = (r, a1) \<Longrightarrow>
   (\<exists>ok. r = Inr ok) \<and> count_list (trace a1) free_buffer = count_list (trace a) free_buffer"
  by (auto simp add: playAudioData_build_def SoundPayload_dtor_def Let_def emit_def split: if_splits)

lemma playAudioData_released_on_return:
  assumes "playAudioData env chans sampleRate bits bufferSize (Some bytes) a = (Inr ok, a1)"
  shows "count_list (trace a1) free_buffer = Suc (count_list (trace a) free_buffer)"
proof (cases "playAudioData_convert env chans sampleRate bits bufferSize (Some bytes) a")
  case (Inl left)
  with assms show ?thesis
    by (auto simp add: playAudioData_def dest: convert_left_released)
next
  case (Inr right)
  then obtain fmt n p a2 where
    conv: "playAudioData_convert env chans sampleRate bits bufferSize (Some bytes) a = Inr (fmt, n, p, a2)"
    by (cases right) auto
  with assms have "playAudioData_build env fmt chans n p a2 = (Inr ok, a1)"
    by (simp add: playAudioData_def)
  with convert_released [OF conv] show ?thesis
    by (auto dest: build_returns)
qed

lemma playAudioData_not_released_on_throw:
  assumes "playAudioData env chans sampleRate bits bufferSize buffer a = (Inl f, a1)"
  shows "count_list (trace a1) free_buffer = count_list (trace a) free_buffer"
proof (cases "playAudioData_convert env chans sampleRate bits bufferSize buffer a")
  case (Inl left)
  with assms show ?thesis
    by (auto simp add: playAudioData_def dest: convert_left_thrown)
next
  case (Inr right)
  then obtain fmt n p a2 where
    conv: "playAudioData_convert env chans sampleRate bits bufferSize buffer a = Inr (fmt, n, p, a2)"
    by (cases right) auto
  with assms have "playAudioData_build env fmt chans n p a2 = (Inl f, a1)"
    by (simp add: playAudioData_def)
  then show ?thesis
    by (auto dest: build_returns)
qed

text \<open>
  Claim C1 at an input where the code does not keep it. On a machine where the backend
  refuses to open the device, or where it cannot enumerate, \<open>playAudioData\<close> is left by the
  exception of \<open>CDevice\<close> or of \<open>getDevicesList\<close> with a buffer that is not null and that is
  never released. (\<open>playAudioData_released_on_return\<close> shows one release on every path
  that returns, \<open>playAudioData_not_released_on_throw\<close> none on every path that throws.)
\<close>

theorem playAudioData_leaks_on_throw:
  "playAudioData device_fails 1 48000 16 4 (Some [1, 2, 3, 4]) fresh =
     (Inl StdException,
      fresh\<lparr>trace := [spdlog debug ''Initializing new audio device'', call_ma_device_init 9 MA_ERROR,
                       spdlog err ''Failed to initialize audio device: {}'']\<rparr>) \<and>
   playAudioData enumeration_fails 1 48000 16 4 (Some [1, 2, 3, 4]) fresh =
     (Inl StdException, fresh\<lparr>trace := [spdlog critical ''Failed to get list of devices'']\<rparr>) \<and>
   count_list (trace (snd (playAudioData device_fails 1 48000 16 4 (Some [1, 2, 3, 4]) fresh))) free_buffer = 0 \<and>
   count_list (trace (snd (playAudioData enumeration_fails 1 48000 16 4 (Some [1, 2, 3, 4]) fresh))) free_buffer = 0"
  by (simp add: fresh_eq fixture_defs play_defs Let_def)

subsection \<open>After the conversion\<close>

text \<open>
  Claim C2, as stated, fails: when \<open>ma_audio_buffer_init\<close> or
  \<open>ma_sound_init_from_data_source\<close> fails, \<open>playAudioData\<close> returns \<open>false\<close>; it does not throw.
\<close>

theorem construction_failure_not_fatal_counterexample:
  "ma_audio_buffer_init audio_buffer_fails
     \<lparr>cfg_format = ma_format_s16, cfg_channels = 1, cfg_sizeInFrames = 2, cfg_sampleRate = 48000\<rparr>
     [1, 2, 3, 4] \<noteq> MA_SUCCESS \<and>
   fst (playAudioData audio_buffer_fails 1 48000 16 4 (Some [1, 2, 3, 4]) fresh) = Inr False \<and>
   ma_sound_init_from_data_source sound_fails
     \<lparr>cfg_format = ma_format_s16, cfg_channels = 1, cfg_sizeInFrames = 2, cfg_sampleRate = 48000\<rparr>
     \<noteq> MA_SUCCESS \<and>
   fst (playAudioData sound_fails 1 48000 16 4 (Some [1, 2, 3, 4]) fresh) = Inr False"
  by (simp add: fresh_eq fixture_defs play_defs Let_def)

text \<open>
  Claim C2, amended. When \<open>playAudioData\<close> has converted a non-empty result and the
  initialisation of the audio buffer or of the sound fails, the function logs at level
  critical and returns \<open>false\<close>. No sound is registered or started. Before returning, an audio
  buffer that was initialised is uninitialised, and the payload is destroyed without any
  other native call.
\<close>

theorem construction_failure_returns_false:
  assumes "playAudioData_convert env chans sampleRate bits bufferSize buffer a = Inr (fmt, frameCountOut, p, a1)"
    and "frameCountOut \<noteq> 0"
    and "config = \<lparr>cfg_format = fmt, cfg_channels = chans, cfg_sizeInFrames = frameCountOut,
                   cfg_sampleRate = AUDIO_DEFAULT_SAMPLE_RATE\<rparr>"
    and "ma_audio_buffer_init env config (pcmData p) \<noteq> MA_SUCCESS \<or>
         ma_sound_init_from_data_source env config \<noteq> MA_SUCCESS"
  shows "playAudioData env chans sampleRate bits bufferSize buffer a =
     (Inr False,
      a1\<lparr>trace := trace a1 @
        (if ma_audio_buffer_init env config (pcmData p) \<noteq> MA_SUCCESS
         then [call_ma_audio_buffer_init config (ma_audio_buffer_init env config (pcmData p)),
               spdlog critical ''Failed to initialize audio buffer: {}'']
         else [call_ma_audio_buffer_init config MA_SUCCESS,
               call_ma_sound_init_from_data_source (ma_sound_init_from_data_source env config),
               spdlog critical ''Failed to initialize sound instance: {}'',
               call_ma_audio_buffer_uninit])\<rparr>)"
  using assms convert_payload [OF assms(1)]
  by (auto simp add: playAudioData_def playAudioData_build_def SoundPayload_dtor_def Let_def emit_def)

theorem construction_failure_returns_false_witness:
  "playAudioData_convert sound_fails 1 AUDIO_DEFAULT_SAMPLE_RATE 16 4 (Some [1, 2, 3, 4]) fresh =
     Inr (ma_format_s16, 2, \<lparr>sound = None, audioBuffer = None, pcmData = [1, 2, 3, 4]\<rparr>,
          tuned\<lparr>m_resampler := Some \<lparr>resampler = Some (slow_mono\<lparr>sampleRateIn := 48000\<rparr>)\<rparr>,
                trace := trace opened @
                  [call_ma_resampler_init ma_format_s16 1 48000 48000 MA_SUCCESS, free_buffer]\<rparr>) \<and>
   (2 :: 64 word) \<noteq> 0 \<and>
   ma_sound_init_from_data_source sound_fails
     \<lparr>cfg_format = ma_format_s16, cfg_channels = 1, cfg_sizeInFrames = 2,
      cfg_sampleRate = AUDIO_DEFAULT_SAMPLE_RATE\<rparr> \<noteq> MA_SUCCESS \<and>
   playAudioData sound_fails 1 AUDIO_DEFAULT_SAMPLE_RATE 16 4 (Some [1, 2, 3, 4]) fresh =
     (Inr False,
      tuned\<lparr>m_resampler := Some \<lparr>resampler = Some (slow_mono\<lparr>sampleRateIn := 48000\<rparr>)\<rparr>,
            trace := trace opened @
              [call_ma_resampler_init ma_format_s16 1 48000 48000 MA_SUCCESS, free_buffer,
               call_ma_audio_buffer_init
                 \<lparr>cfg_format = ma_format_s16, cfg_channels = 1, cfg_sizeInFrames = 2,
                  cfg_sampleRate = AUDIO_DEFAULT_SAMPLE_RATE\<rparr> MA_SUCCESS,
               call_ma_sound_init_from_data_source MA_ERROR,
               spdlog critical ''Failed to initialize sound instance: {}'',
               call_ma_audio_buffer_uninit]\<rparr>)"
proof -
  have conv: "playAudioData_convert sound_fails 1 AUDIO_DEFAULT_SAMPLE_RATE 16 4 (Some [1, 2, 3, 4]) fresh =
     Inr (ma_format_s16, 2, \<lparr>sound = None, audioBuffer = None, pcmData = [1, 2, 3, 4]\<rparr>,
          tuned\<lparr>m_resampler := Some \<lparr>resampler = Some (slow_mono\<lparr>sampleRateIn := 48000\<rparr>)\<rparr>,
                trace := trace opened @
                  [call_ma_resampler_init ma_format_s16 1 48000 48000 MA_SUCCESS, free_buffer]\<rparr>)"
    by (simp add: fresh_eq fixture_defs play_defs Let_def)
  have fails: "ma_sound_init_from_data_source sound_fails
     \<lparr>cfg_format = ma_format_s16, cfg_channels = 1, cfg_sizeInFrames = 2,
      cfg_sampleRate = AUDIO_DEFAULT_SAMPLE_RATE\<rparr> \<noteq> MA_SUCCESS"
    by (simp add: sound_fails_def healthy_def)
  have works: "ma_audio_buffer_init sound_fails
     \<lparr>cfg_format = ma_format_s16, cfg_channels = 1, cfg_sizeInFrames = 2,
      cfg_sampleRate = AUDIO_DEFAULT_SAMPLE_RATE\<rparr> [1, 2, 3, 4] = MA_SUCCESS"
    by (simp add: sound_fails_def healthy_def)
  show ?thesis
    using conv fails works
      construction_failure_returns_false [OF conv _ refl]
    by (simp add: sound_fails_def healthy_def)
qed







end
